theory Spec2Isabelle
  imports Main
begin

section \<open>The browser-automation calls the scripts make\<close>

text \<open>
  Both scripts of \<^verbatim>\<open>src/verification\<close> are straight-line sequences of calls into the
  Playwright library, with two \<^verbatim>\<open>try/except\<close> blocks in \<^verbatim>\<open>verify_coloring.py\<close> and one
  in \<^verbatim>\<open>verify_editor.py\<close>. A call is recorded as an \<open>action\<close>; a script is a statement
  that threads a \<open>world\<close> (the log of calls made, the files written, the lines printed
  and the listeners registered with \<^verbatim>\<open>page.on\<close>) and ends with a \<open>signal\<close>: it fell
  through, it executed \<^verbatim>\<open>return\<close>, or an exception is propagating.

  The application under test is the environment. It decides, for every call that waits for
  an element of the page (\<^verbatim>\<open>wait_for_selector\<close>, \<^verbatim>\<open>select_option\<close>, \<^verbatim>\<open>click\<close>), whether
  the element turns up before the call's timeout, and which console messages and page errors
  it delivers while a call is in progress. Both may depend on everything the script has done
  so far. The library and the file system themselves are taken to work, and the application
  to be reachable at its address: launching, navigating, fixed delays, taking a screenshot
  and closing complete. A call that fails raises, and the log keeps the call with its
  failure.
\<close>

type_synonym selector = string

text \<open>\<^verbatim>\<open>page.locator(a).locator(b).locator(c)\<close> is the chain \<open>[a, b, c]\<close>; building it does
  not touch the page.\<close>

type_synonym locator = "selector list"

text \<open>Both listeners are lambdas of the shape \<^verbatim>\<open>lambda x: print(f"<prefix>{x}")\<close>.\<close>

datatype handler = Print_With string

datatype action =
    Start_Playwright
  | Launch bool
  | New_Page
  | On string handler
  | Goto string
  | Wait_For_Selector selector "nat option"
  | Screenshot string
  | Select_Option locator string
  | Wait_For_Timeout nat
  | Click selector
  | Close
  | Stop_Playwright

datatype response = Done | Fails string

datatype page_event = Page_Event string string

text \<open>
  \<open>appears app h a\<close> is the response to the waiting call \<open>a\<close> made after the calls \<open>h\<close>:
  the awaited element turned up in time, or the call raised with the given message.
  \<open>emits app h a\<close> are the console and page-error events delivered while \<open>a\<close> runs.
  \<open>page_has app h s\<close> tells whether an element matching \<open>s\<close> is in the page once the calls
  \<open>h\<close> have been made; neither script reads the page other than through its waits, so no
  call consults it.
\<close>

record application =
  appears :: "action list \<Rightarrow> action \<Rightarrow> response"
  emits :: "action list \<Rightarrow> action \<Rightarrow> page_event list"
  page_has :: "action list \<Rightarrow> selector \<Rightarrow> bool"

record world =
  log :: "(action \<times> response) list"
  files :: "string list"
  stdout :: "string list"
  listeners :: "(string \<times> handler) list"

datatype signal = Normal | Return | Raise string

datatype outcome = Returned | Raised string

type_synonym stmt = "application \<Rightarrow> world \<Rightarrow> signal \<times> world"

definition initial :: world where
  "initial = \<lparr>log = [], files = [], stdout = [], listeners = []\<rparr>"

fun awaits_element :: "action \<Rightarrow> bool" where
  "awaits_element (Wait_For_Selector s t) = True"
| "awaits_element (Select_Option l v) = True"
| "awaits_element (Click s) = True"
| "awaits_element a = False"

definition respond :: "application \<Rightarrow> action list \<Rightarrow> action \<Rightarrow> response" where
  "respond app h a = (if awaits_element a then appears app h a else Done)"

fun run_handler :: "handler \<Rightarrow> string \<Rightarrow> string" where
  "run_handler (Print_With prefix) x = prefix @ x"

fun dispatch :: "(string \<times> handler) list \<Rightarrow> page_event \<Rightarrow> string list" where
  "dispatch ls (Page_Event kind x) =
     map (\<lambda>l. run_handler (snd l) x) (filter (\<lambda>l. fst l = kind) ls)"

fun effect :: "action \<Rightarrow> world \<Rightarrow> world" where
  "effect (Screenshot path) w = w\<lparr>files := files w @ [path]\<rparr>"
| "effect (On kind f) w = w\<lparr>listeners := listeners w @ [(kind, f)]\<rparr>"
| "effect a w = w"

definition call :: "action \<Rightarrow> stmt" where
  "call a app w =
     (let h = map fst (log w);
          r = respond app h a;
          w' = w\<lparr>log := log w @ [(a, r)],
                 stdout := stdout w @ concat (map (dispatch (listeners w)) (emits app h a))\<rparr>
      in case r of Done \<Rightarrow> (Normal, effect a w') | Fails e \<Rightarrow> (Raise e, w'))"

definition print :: "string \<Rightarrow> stmt" where
  "print s app w = (Normal, w\<lparr>stdout := stdout w @ [s]\<rparr>)"

definition return :: stmt where
  "return app w = (Return, w)"

fun block :: "stmt list \<Rightarrow> stmt" where
  "block [] app w = (Normal, w)"
| "block (s # ss) app w =
     (case s app w of (sig, w') \<Rightarrow>
        (case sig of Normal \<Rightarrow> block ss app w' | Return \<Rightarrow> (Return, w') | Raise e \<Rightarrow> (Raise e, w')))"

definition try_except :: "stmt \<Rightarrow> (string \<Rightarrow> stmt) \<Rightarrow> stmt" where
  "try_except body handle app w =
     (case body app w of (sig, w') \<Rightarrow>
        (case sig of Raise e \<Rightarrow> handle e app w' | Normal \<Rightarrow> (Normal, w') | Return \<Rightarrow> (Return, w')))"

definition with_sync_playwright :: "stmt \<Rightarrow> stmt" where
  "with_sync_playwright body app w =
     (case call Start_Playwright app w of (sig0, w0) \<Rightarrow>
        (case body app w0 of (sig, w1) \<Rightarrow>
           (case call Stop_Playwright app w1 of (sig2, w2) \<Rightarrow> (sig, w2))))"

definition run_function :: "stmt \<Rightarrow> application \<Rightarrow> outcome \<times> world" where
  "run_function body app =
     (case body app initial of (sig, w) \<Rightarrow>
        (case sig of Raise e \<Rightarrow> (Raised e, w) | Normal \<Rightarrow> (Returned, w) | Return \<Rightarrow> (Returned, w)))"

section \<open>The two scripts\<close>

definition select_loc :: locator where
  "select_loc = [''text=Coloring Rule'', ''xpath=..'', ''select'']"

definition edit_rule_button :: selector where
  "edit_rule_button = ''button[title='' @ [CHR 0x27] @ ''Edit Rule'' @ [CHR 0x27] @ '']''"

definition verify_coloring_ui :: "application \<Rightarrow> outcome \<times> world" where
  "verify_coloring_ui = run_function (with_sync_playwright (block [
     call (Launch True),
     call New_Page,
     call (On ''console'' (Print_With ''Console: '')),
     call (On ''pageerror'' (Print_With ''PageError: '')),
     print ''Navigating...'',
     call (Goto ''http://localhost:4173/''),
     print ''Waiting for canvas...'',
     try_except
       (block [call (Wait_For_Selector ''canvas'' (Some 5000)),
               print ''Canvas found.''])
       (\<lambda>e. block [print (''Canvas not found: '' @ e),
                    call (Screenshot ''verification/error_state.png''),
                    return]),
     try_except
       (block [call (Wait_For_Selector ''text=Coloring Rule'' None),
               print ''UI found.''])
       (\<lambda>e. block [print (''UI not found: '' @ e),
                    call (Screenshot ''verification/error_state_ui.png''),
                    return]),
     print ''Selecting Randomize...'',
     call (Select_Option select_loc ''random''),
     call (Wait_For_Timeout 1000),
     call (Screenshot ''verification/random_coloring.png''),
     print ''Screenshot saved to verification/random_coloring.png'',
     print ''Selecting 4-Color...'',
     call (Select_Option select_loc ''four-color''),
     call (Wait_For_Timeout 1000),
     call (Screenshot ''verification/four_color.png''),
     print ''Screenshot saved to verification/four_color.png'',
     print ''Selecting Gradient...'',
     call (Select_Option select_loc ''orientation-gradient''),
     call (Wait_For_Timeout 1000),
     call (Screenshot ''verification/gradient.png''),
     print ''Screenshot saved to verification/gradient.png'',
     call Close]))"

definition verify_editor :: "application \<Rightarrow> outcome \<times> world" where
  "verify_editor = run_function (with_sync_playwright (block [
     call (Launch True),
     call New_Page,
     call (On ''console'' (Print_With ''Console: '')),
     call (On ''pageerror'' (Print_With ''PageError: '')),
     print ''Navigating...'',
     call (Goto ''http://localhost:4173/''),
     try_except
       (call (Wait_For_Selector ''canvas'' (Some 5000)))
       (\<lambda>e. block [print ''Canvas not found'',
                    call (Screenshot ''verification/error_start.png''),
                    return]),
     print ''Selecting Gradient...'',
     call (Select_Option select_loc ''orientation-gradient''),
     call (Wait_For_Timeout 500),
     print ''Opening Editor...'',
     call (Click edit_rule_button),
     call (Wait_For_Selector ''text=Edit Gradient'' (Some 2000)),
     call (Screenshot ''verification/editor_gradient.png''),
     print ''Screenshot: verification/editor_gradient.png'',
     call (Click ''text=Cancel''),
     call (Wait_For_Timeout 500),
     print ''Selecting Orientation...'',
     call (Select_Option select_loc ''orientation''),
     call (Wait_For_Timeout 500),
     call (Click edit_rule_button),
     call (Wait_For_Selector ''text=Edit Orientation Colors'' (Some 2000)),
     call (Screenshot ''verification/editor_orientation.png''),
     print ''Screenshot: verification/editor_orientation.png'',
     call Close]))"

section \<open>What a run shows\<close>

text \<open>
  A run is observed through how the function ended, the calls it made with the response
  to each, and the screenshot files it wrote, in order. What it printed is kept in
  \<open>stdout\<close> and is not part of this observation.
\<close>

definition outcome_of :: "outcome \<times> world \<Rightarrow> outcome" where
  "outcome_of r = fst r"

definition log_of :: "outcome \<times> world \<Rightarrow> (action \<times> response) list" where
  "log_of r = log (snd r)"

definition calls_of :: "outcome \<times> world \<Rightarrow> action list" where
  "calls_of r = map fst (log (snd r))"

definition files_of :: "outcome \<times> world \<Rightarrow> string list" where
  "files_of r = files (snd r)"

definition observed :: "outcome \<times> world \<Rightarrow> outcome \<times> (action \<times> response) list \<times> string list" where
  "observed r = (fst r, log (snd r), files (snd r))"

definition succeeded :: "action list \<Rightarrow> (action \<times> response) list" where
  "succeeded as = map (\<lambda>a. (a, Done)) as"

text \<open>The calls both scripts make before their first wait, and the waits themselves.\<close>

definition setup_calls :: "action list" where
  "setup_calls = [Start_Playwright, Launch True, New_Page,
     On ''console'' (Print_With ''Console: ''),
     On ''pageerror'' (Print_With ''PageError: ''),
     Goto ''http://localhost:4173/'']"

definition canvas_wait :: action where
  "canvas_wait = Wait_For_Selector ''canvas'' (Some 5000)"

definition ui_wait :: action where
  "ui_wait = Wait_For_Selector ''text=Coloring Rule'' None"

definition gradient_dialog_wait :: action where
  "gradient_dialog_wait = Wait_For_Selector ''text=Edit Gradient'' (Some 2000)"

definition orientation_dialog_wait :: action where
  "orientation_dialog_wait = Wait_For_Selector ''text=Edit Orientation Colors'' (Some 2000)"


text \<open>
  Two worlds agree when they hold the same log and the same files; a statement is
  \<open>quiet\<close> when, started in agreeing worlds under applications that answer the waits
  alike, it ends with the same signal in agreeing worlds, whatever the two applications
  emit. \<open>silent\<close> is the application that answers alike and emits nothing.
\<close>

definition agree :: "world \<Rightarrow> world \<Rightarrow> bool" where
  "agree w w' \<longleftrightarrow> log w = log w' \<and> files w = files w'"

definition quiet :: "stmt \<Rightarrow> bool" where
  "quiet s \<longleftrightarrow> (\<forall>app app' w w'. appears app = appears app' \<longrightarrow> agree w w' \<longrightarrow>
      fst (s app w) = fst (s app' w') \<and> agree (snd (s app w)) (snd (s app' w')))"

definition silent :: "application \<Rightarrow> application" where
  "silent app = app\<lparr>emits := (\<lambda>h a. [])\<rparr>"

subsection \<open>Applications used as examples\<close>

text \<open>An application that shows every element in time and logs one console message and
  one page error during every call.\<close>

definition all_present :: application where
  "all_present = \<lparr>appears = (\<lambda>h a. Done),
     emits = (\<lambda>h a. [Page_Event ''console'' ''tick'', Page_Event ''pageerror'' ''Error: boom'']),
     page_has = (\<lambda>h s. True)\<rparr>"

text \<open>An application that answers every wait but \<open>a\<close>, which times out.\<close>

definition lacking :: "action \<Rightarrow> application" where
  "lacking a = \<lparr>appears = (\<lambda>h b. if b = a then Fails ''Timeout exceeded'' else Done),
     emits = (\<lambda>h b. []),
     page_has = (\<lambda>h s. True)\<rparr>"


section \<open>Console messages and page errors do not steer a statement\<close>

lemma quietD:
  assumes "quiet s" "appears app = appears app'" "agree w w'"
  shows "fst (s app w) = fst (s app' w')" "agree (snd (s app w)) (snd (s app' w'))"
  using assms unfolding quiet_def by blast+

lemma agree_effect: "agree w w' \<Longrightarrow> agree (effect a w) (effect a w')"
  by (cases a) (simp_all add: agree_def)

lemma quiet_call: "quiet (call a)"
  unfolding quiet_def
proof (intro allI impI)
  fix app app' :: application and w w' :: world
  assume ap: "appears app = appears app'" and ag: "agree w w'"
  then have r: "respond app (map fst (log w)) a = respond app' (map fst (log w')) a"
    by (simp add: respond_def agree_def)
  show "fst (call a app w) = fst (call a app' w') \<and> agree (snd (call a app w)) (snd (call a app' w'))"
  proof (cases "respond app' (map fst (log w')) a")
    case Done
    with r ag show ?thesis
      by (auto simp add: call_def Let_def intro!: agree_effect) (simp_all add: agree_def)
  next
    case (Fails e)
    with r ag show ?thesis
      by (simp add: call_def Let_def agree_def)
  qed
qed

lemma quiet_print: "quiet (print m)"
  by (simp add: quiet_def print_def agree_def)

lemma quiet_return: "quiet return"
  by (simp add: quiet_def return_def)

lemma quiet_block: "list_all quiet ss \<Longrightarrow> quiet (block ss)"
proof (induction ss)
  case Nil
  show ?case by (simp add: quiet_def)
next
  case (Cons s ss)
  then have s: "quiet s" and ss: "quiet (block ss)" by simp_all
  show ?case
    unfolding quiet_def
  proof (intro allI impI)
    fix app app' :: application and w w' :: world
    assume ap: "appears app = appears app'" and ag: "agree w w'"
    obtain sig w1 where 1: "s app w = (sig, w1)" by (cases "s app w")
    obtain sig' w1' where 2: "s app' w' = (sig', w1')" by (cases "s app' w'")
    from quietD[OF s ap ag] 1 2 have eq: "sig = sig'" and ag1: "agree w1 w1'" by simp_all
    show "fst (block (s # ss) app w) = fst (block (s # ss) app' w') \<and>
          agree (snd (block (s # ss) app w)) (snd (block (s # ss) app' w'))"
      using 1 2 eq ag1 quietD[OF ss ap ag1] by (cases sig') simp_all
  qed
qed

lemma quiet_try_except:
  assumes b: "quiet body" and h: "\<And>e. quiet (handle e)"
  shows "quiet (try_except body handle)"
  unfolding quiet_def
proof (intro allI impI)
  fix app app' :: application and w w' :: world
  assume ap: "appears app = appears app'" and ag: "agree w w'"
  obtain sig w1 where 1: "body app w = (sig, w1)" by (cases "body app w")
  obtain sig' w1' where 2: "body app' w' = (sig', w1')" by (cases "body app' w'")
  from quietD[OF b ap ag] 1 2 have eq: "sig = sig'" and ag1: "agree w1 w1'" by simp_all
  show "fst (try_except body handle app w) = fst (try_except body handle app' w') \<and>
        agree (snd (try_except body handle app w)) (snd (try_except body handle app' w'))"
    using 1 2 eq ag1 quietD[OF h ap ag1] by (cases sig') (simp_all add: try_except_def)
qed

lemma quiet_with_sync_playwright:
  assumes b: "quiet body"
  shows "quiet (with_sync_playwright body)"
  unfolding quiet_def
proof (intro allI impI)
  fix app app' :: application and w w' :: world
  assume ap: "appears app = appears app'" and ag: "agree w w'"
  obtain s0 w0 where c0: "call Start_Playwright app w = (s0, w0)"
    by (cases "call Start_Playwright app w")
  obtain s0' w0' where c0a: "call Start_Playwright app' w' = (s0', w0')"
    by (cases "call Start_Playwright app' w'")
  from quietD[OF quiet_call ap ag, of Start_Playwright] c0 c0a have ag0: "agree w0 w0'" by simp
  obtain sig w1 where 1: "body app w0 = (sig, w1)" by (cases "body app w0")
  obtain sig' w1' where 2: "body app' w0' = (sig', w1')" by (cases "body app' w0'")
  from quietD[OF b ap ag0] 1 2 have eq: "sig = sig'" and ag1: "agree w1 w1'" by simp_all
  obtain s2 w2 where c3: "call Stop_Playwright app w1 = (s2, w2)"
    by (cases "call Stop_Playwright app w1")
  obtain s2' w2' where c3a: "call Stop_Playwright app' w1' = (s2', w2')"
    by (cases "call Stop_Playwright app' w1'")
  from quietD[OF quiet_call ap ag1, of Stop_Playwright] c3 c3a have ag2: "agree w2 w2'" by simp
  show "fst (with_sync_playwright body app w) = fst (with_sync_playwright body app' w') \<and>
        agree (snd (with_sync_playwright body app w)) (snd (with_sync_playwright body app' w'))"
    using c0 c0a 1 2 c3 c3a eq ag2 by (simp add: with_sync_playwright_def)
qed

lemma quiet_run_function:
  assumes b: "quiet body" and ap: "appears app = appears app'"
  shows "observed (run_function body app) = observed (run_function body app')"
proof -
  have ag: "agree initial initial" by (simp add: agree_def)
  obtain sig w1 where 1: "body app initial = (sig, w1)" by (cases "body app initial")
  obtain sig' w1' where 2: "body app' initial = (sig', w1')" by (cases "body app' initial")
  from quietD[OF b ap ag] 1 2 have eq: "sig = sig'" and ag1: "agree w1 w1'" by simp_all
  show ?thesis
    using 1 2 eq ag1 by (cases sig') (simp_all add: run_function_def agree_def observed_def)
qed

lemmas quiet_intros = quiet_call quiet_print quiet_return quiet_block quiet_try_except
  quiet_with_sync_playwright

lemma coloring_quiet:
  "appears app = appears app' \<Longrightarrow>
   observed (verify_coloring_ui app) = observed (verify_coloring_ui app')"
  unfolding verify_coloring_ui_def
  by (rule quiet_run_function) (simp_all add: quiet_intros)

lemma editor_quiet:
  "appears app = appears app' \<Longrightarrow>
   observed (verify_editor app) = observed (verify_editor app')"
  unfolding verify_editor_def
  by (rule quiet_run_function) (simp_all add: quiet_intros)

lemma appears_silent: "appears (silent app) = appears app"
  by (simp add: silent_def)

lemma emits_silent: "emits (silent app) h a = []"
  by (simp add: silent_def)

lemma outcome_of_observed: "observed r = (x, l, fs) \<Longrightarrow> outcome_of r = x"
  by (simp add: observed_def outcome_of_def)

lemma log_of_observed: "observed r = (x, l, fs) \<Longrightarrow> log_of r = l"
  by (simp add: observed_def log_of_def)

lemma calls_of_observed: "observed r = (x, l, fs) \<Longrightarrow> calls_of r = map fst l"
  by (simp add: observed_def calls_of_def)

lemma files_of_observed: "observed r = (x, l, fs) \<Longrightarrow> files_of r = fs"
  by (simp add: observed_def files_of_def)

lemmas of_observed = outcome_of_observed log_of_observed calls_of_observed files_of_observed

section \<open>The paths through the coloring script\<close>

lemmas run_defs = run_function_def with_sync_playwright_def call_def print_def return_def
  try_except_def respond_def initial_def Let_def observed_def succeeded_def
  setup_calls_def canvas_wait_def ui_wait_def gradient_dialog_wait_def
  orientation_dialog_wait_def appears_silent emits_silent

lemma coloring_cases [case_names canvas_timeout ui_timeout random_failed four_color_failed
    gradient_failed completed]:
  obtains
    (canvas_timeout) e where
      "observed (verify_coloring_ui app) =
         (Returned,
          succeeded setup_calls @
            [(canvas_wait, Fails e), (Screenshot ''verification/error_state.png'', Done),
             (Stop_Playwright, Done)],
          [''verification/error_state.png''])"
  | (ui_timeout) e where
      "observed (verify_coloring_ui app) =
         (Returned,
          succeeded (setup_calls @ [canvas_wait]) @
            [(ui_wait, Fails e), (Screenshot ''verification/error_state_ui.png'', Done),
             (Stop_Playwright, Done)],
          [''verification/error_state_ui.png''])"
  | (random_failed) e where
      "observed (verify_coloring_ui app) =
         (Raised e,
          succeeded (setup_calls @ [canvas_wait, ui_wait]) @
            [(Select_Option select_loc ''random'', Fails e), (Stop_Playwright, Done)],
          [])"
  | (four_color_failed) e where
      "observed (verify_coloring_ui app) =
         (Raised e,
          succeeded (setup_calls @ [canvas_wait, ui_wait,
             Select_Option select_loc ''random'', Wait_For_Timeout 1000,
             Screenshot ''verification/random_coloring.png'']) @
            [(Select_Option select_loc ''four-color'', Fails e), (Stop_Playwright, Done)],
          [''verification/random_coloring.png''])"
  | (gradient_failed) e where
      "observed (verify_coloring_ui app) =
         (Raised e,
          succeeded (setup_calls @ [canvas_wait, ui_wait,
             Select_Option select_loc ''random'', Wait_For_Timeout 1000,
             Screenshot ''verification/random_coloring.png'',
             Select_Option select_loc ''four-color'', Wait_For_Timeout 1000,
             Screenshot ''verification/four_color.png'']) @
            [(Select_Option select_loc ''orientation-gradient'', Fails e),
             (Stop_Playwright, Done)],
          [''verification/random_coloring.png'', ''verification/four_color.png''])"
  | (completed)
      "observed (verify_coloring_ui app) =
         (Returned,
          succeeded (setup_calls @ [canvas_wait, ui_wait,
             Select_Option select_loc ''random'', Wait_For_Timeout 1000,
             Screenshot ''verification/random_coloring.png'',
             Select_Option select_loc ''four-color'', Wait_For_Timeout 1000,
             Screenshot ''verification/four_color.png'',
             Select_Option select_loc ''orientation-gradient'', Wait_For_Timeout 1000,
             Screenshot ''verification/gradient.png'',
             Close, Stop_Playwright]),
          [''verification/random_coloring.png'', ''verification/four_color.png'',
           ''verification/gradient.png''])"
proof -
  have q: "observed (verify_coloring_ui app) = observed (verify_coloring_ui (silent app))"
    by (rule coloring_quiet) (simp add: appears_silent)
  let ?h1 = "setup_calls"
  let ?h2 = "?h1 @ [canvas_wait]"
  let ?h3 = "?h2 @ [ui_wait]"
  let ?h4 = "?h3 @ [Select_Option select_loc ''random'', Wait_For_Timeout 1000,
                    Screenshot ''verification/random_coloring.png'']"
  let ?h5 = "?h4 @ [Select_Option select_loc ''four-color'', Wait_For_Timeout 1000,
                    Screenshot ''verification/four_color.png'']"
  show thesis
  proof (cases "appears app ?h1 canvas_wait")
    case (Fails e)
    show thesis
      by (rule canvas_timeout[of e], subst q)
         (use Fails in \<open>simp add: verify_coloring_ui_def run_defs\<close>)
  next
    case c1: Done
    show thesis
    proof (cases "appears app ?h2 ui_wait")
      case (Fails e)
      show thesis
        by (rule ui_timeout[of e], subst q)
           (use c1 Fails in \<open>simp add: verify_coloring_ui_def run_defs\<close>)
    next
      case c2: Done
      show thesis
      proof (cases "appears app ?h3 (Select_Option select_loc ''random'')")
        case (Fails e)
        show thesis
          by (rule random_failed[of e], subst q)
             (use c1 c2 Fails in \<open>simp add: verify_coloring_ui_def run_defs\<close>)
      next
        case c3: Done
        show thesis
        proof (cases "appears app ?h4 (Select_Option select_loc ''four-color'')")
          case (Fails e)
          show thesis
            by (rule four_color_failed[of e], subst q)
               (use c1 c2 c3 Fails in \<open>simp add: verify_coloring_ui_def run_defs\<close>)
        next
          case c4: Done
          show thesis
          proof (cases "appears app ?h5 (Select_Option select_loc ''orientation-gradient'')")
            case (Fails e)
            show thesis
              by (rule gradient_failed[of e], subst q)
                 (use c1 c2 c3 c4 Fails in \<open>simp add: verify_coloring_ui_def run_defs\<close>)
          next
            case c5: Done
            show thesis
              by (rule completed, subst q)
                 (use c1 c2 c3 c4 c5 in \<open>simp add: verify_coloring_ui_def run_defs\<close>)
          qed
        qed
      qed
    qed
  qed
qed

section \<open>The paths through the editor script\<close>

lemma editor_cases [case_names canvas_timeout select_gradient_failed open_gradient_failed gradient_dialog_timeout cancel_failed
    select_orientation_failed open_orientation_failed orientation_dialog_timeout completed]:
  obtains
    (canvas_timeout) e where
      "observed (verify_editor app) =
         (Returned,
          succeeded setup_calls @
            [(canvas_wait, Fails e), (Screenshot ''verification/error_start.png'', Done),
             (Stop_Playwright, Done)],
          [''verification/error_start.png''])"
  | (select_gradient_failed) e where
      "observed (verify_editor app) =
         (Raised e,
          succeeded (setup_calls @ [canvas_wait]) @
            [(Select_Option select_loc ''orientation-gradient'', Fails e), (Stop_Playwright, Done)],
          [])"
  | (open_gradient_failed) e where
      "observed (verify_editor app) =
         (Raised e,
          succeeded (setup_calls @ [canvas_wait, Select_Option select_loc ''orientation-gradient'',
             Wait_For_Timeout 500]) @
            [(Click edit_rule_button, Fails e), (Stop_Playwright, Done)],
          [])"
  | (gradient_dialog_timeout) e where
      "observed (verify_editor app) =
         (Raised e,
          succeeded (setup_calls @ [canvas_wait, Select_Option select_loc ''orientation-gradient'',
             Wait_For_Timeout 500, Click edit_rule_button]) @
            [(gradient_dialog_wait, Fails e), (Stop_Playwright, Done)],
          [])"
  | (cancel_failed) e where
      "observed (verify_editor app) =
         (Raised e,
          succeeded (setup_calls @ [canvas_wait, Select_Option select_loc ''orientation-gradient'',
             Wait_For_Timeout 500, Click edit_rule_button, gradient_dialog_wait,
             Screenshot ''verification/editor_gradient.png'']) @
            [(Click ''text=Cancel'', Fails e), (Stop_Playwright, Done)],
          [''verification/editor_gradient.png''])"
  | (select_orientation_failed) e where
      "observed (verify_editor app) =
         (Raised e,
          succeeded (setup_calls @ [canvas_wait, Select_Option select_loc ''orientation-gradient'',
             Wait_For_Timeout 500, Click edit_rule_button, gradient_dialog_wait,
             Screenshot ''verification/editor_gradient.png'',
             Click ''text=Cancel'', Wait_For_Timeout 500]) @
            [(Select_Option select_loc ''orientation'', Fails e), (Stop_Playwright, Done)],
          [''verification/editor_gradient.png''])"
  | (open_orientation_failed) e where
      "observed (verify_editor app) =
         (Raised e,
          succeeded (setup_calls @ [canvas_wait, Select_Option select_loc ''orientation-gradient'',
             Wait_For_Timeout 500, Click edit_rule_button, gradient_dialog_wait,
             Screenshot ''verification/editor_gradient.png'',
             Click ''text=Cancel'', Wait_For_Timeout 500,
             Select_Option select_loc ''orientation'', Wait_For_Timeout 500]) @
            [(Click edit_rule_button, Fails e), (Stop_Playwright, Done)],
          [''verification/editor_gradient.png''])"
  | (orientation_dialog_timeout) e where
      "observed (verify_editor app) =
         (Raised e,
          succeeded (setup_calls @ [canvas_wait, Select_Option select_loc ''orientation-gradient'',
             Wait_For_Timeout 500, Click edit_rule_button, gradient_dialog_wait,
             Screenshot ''verification/editor_gradient.png'',
             Click ''text=Cancel'', Wait_For_Timeout 500,
             Select_Option select_loc ''orientation'', Wait_For_Timeout 500,
             Click edit_rule_button]) @
            [(orientation_dialog_wait, Fails e), (Stop_Playwright, Done)],
          [''verification/editor_gradient.png''])"
  | (completed)
      "observed (verify_editor app) =
         (Returned,
          succeeded (setup_calls @ [canvas_wait, Select_Option select_loc ''orientation-gradient'',
             Wait_For_Timeout 500, Click edit_rule_button, gradient_dialog_wait,
             Screenshot ''verification/editor_gradient.png'',
             Click ''text=Cancel'', Wait_For_Timeout 500,
             Select_Option select_loc ''orientation'', Wait_For_Timeout 500,
             Click edit_rule_button, orientation_dialog_wait,
             Screenshot ''verification/editor_orientation.png'', Close,
             Stop_Playwright]),
          [''verification/editor_gradient.png'',
           ''verification/editor_orientation.png''])"
proof -
  have q: "observed (verify_editor app) = observed (verify_editor (silent app))"
    by (rule editor_quiet) (simp add: appears_silent)
  show thesis
  proof (cases "appears app setup_calls
      (canvas_wait)")
    case (Fails e)
    show thesis
      by (rule canvas_timeout[of e], subst q)
         (use Fails in \<open>simp add: verify_editor_def run_defs\<close>)
  next
    case c1: Done
    show thesis
    proof (cases "appears app (setup_calls @ [canvas_wait])
        (Select_Option select_loc ''orientation-gradient'')")
      case (Fails e)
      show thesis
        by (rule select_gradient_failed[of e], subst q)
           (use c1 Fails in \<open>simp add: verify_editor_def run_defs\<close>)
    next
      case c2: Done
      show thesis
      proof (cases "appears app (setup_calls @ [canvas_wait, Select_Option select_loc ''orientation-gradient'',
           Wait_For_Timeout 500])
          (Click edit_rule_button)")
        case (Fails e)
        show thesis
          by (rule open_gradient_failed[of e], subst q)
             (use c1 c2 Fails in \<open>simp add: verify_editor_def run_defs\<close>)
      next
        case c3: Done
        show thesis
        proof (cases "appears app (setup_calls @ [canvas_wait, Select_Option select_loc ''orientation-gradient'',
             Wait_For_Timeout 500, Click edit_rule_button])
            (gradient_dialog_wait)")
          case (Fails e)
          show thesis
            by (rule gradient_dialog_timeout[of e], subst q)
               (use c1 c2 c3 Fails in \<open>simp add: verify_editor_def run_defs\<close>)
        next
          case c4: Done
          show thesis
          proof (cases "appears app (setup_calls @ [canvas_wait, Select_Option select_loc ''orientation-gradient'',
               Wait_For_Timeout 500, Click edit_rule_button, gradient_dialog_wait,
               Screenshot ''verification/editor_gradient.png''])
              (Click ''text=Cancel'')")
            case (Fails e)
            show thesis
              by (rule cancel_failed[of e], subst q)
                 (use c1 c2 c3 c4 Fails in \<open>simp add: verify_editor_def run_defs\<close>)
          next
            case c5: Done
            show thesis
            proof (cases "appears app (setup_calls @ [canvas_wait, Select_Option select_loc ''orientation-gradient'',
                 Wait_For_Timeout 500, Click edit_rule_button, gradient_dialog_wait,
                 Screenshot ''verification/editor_gradient.png'',
                 Click ''text=Cancel'', Wait_For_Timeout 500])
                (Select_Option select_loc ''orientation'')")
              case (Fails e)
              show thesis
                by (rule select_orientation_failed[of e], subst q)
                   (use c1 c2 c3 c4 c5 Fails in \<open>simp add: verify_editor_def run_defs\<close>)
            next
              case c6: Done
              show thesis
              proof (cases "appears app (setup_calls @ [canvas_wait, Select_Option select_loc ''orientation-gradient'',
                   Wait_For_Timeout 500, Click edit_rule_button, gradient_dialog_wait,
                   Screenshot ''verification/editor_gradient.png'',
                   Click ''text=Cancel'', Wait_For_Timeout 500,
                   Select_Option select_loc ''orientation'', Wait_For_Timeout 500])
                  (Click edit_rule_button)")
                case (Fails e)
                show thesis
                  by (rule open_orientation_failed[of e], subst q)
                     (use c1 c2 c3 c4 c5 c6 Fails in \<open>simp add: verify_editor_def run_defs\<close>)
              next
                case c7: Done
                show thesis
                proof (cases "appears app (setup_calls @ [canvas_wait, Select_Option select_loc ''orientation-gradient'',
                     Wait_For_Timeout 500, Click edit_rule_button, gradient_dialog_wait,
                     Screenshot ''verification/editor_gradient.png'',
                     Click ''text=Cancel'', Wait_For_Timeout 500,
                     Select_Option select_loc ''orientation'', Wait_For_Timeout 500,
                     Click edit_rule_button])
                    (orientation_dialog_wait)")
                  case (Fails e)
                  show thesis
                    by (rule orientation_dialog_timeout[of e], subst q)
                       (use c1 c2 c3 c4 c5 c6 c7 Fails in \<open>simp add: verify_editor_def run_defs\<close>)
                next
                  case c8: Done
                  show thesis
                    by (rule completed, subst q)
                       (use c1 c2 c3 c4 c5 c6 c7 c8 in \<open>simp add: verify_editor_def run_defs\<close>)
                qed
              qed
            qed
          qed
        qed
      qed
    qed
  qed
qed

section \<open>The coloring script\<close>

lemmas eval_defs = verify_coloring_ui_def verify_editor_def run_function_def
  with_sync_playwright_def call_def print_def return_def try_except_def respond_def
  initial_def Let_def

lemmas call_defs = succeeded_def setup_calls_def canvas_wait_def ui_wait_def
  gradient_dialog_wait_def orientation_dialog_wait_def











section \<open>The editor script\<close>

text \<open>
  C8. In every run of the editor script in which all waited-for elements appear, that is, in
  which no call fails, the script selects \<open>orientation-gradient\<close>, clicks the button titled
  "Edit Rule", waits up to 2000 ms for the text "Edit Gradient", writes
  \<^verbatim>\<open>editor_gradient.png\<close>, clicks "Cancel", selects \<open>orientation\<close>, clicks "Edit Rule" again,
  waits up to 2000 ms for the text "Edit Orientation Colors" and writes
  \<^verbatim>\<open>editor_orientation.png\<close>, in this order (with a 500 ms delay after each selection and
  after the cancel); these two files are all it writes, and it closes the browser and returns.
\<close>

theorem editor_run_when_all_elements_appear:
  assumes "\<forall>a e. (a, Fails e) \<notin> set (log_of (verify_editor app))"
  shows "log_of (verify_editor app) =
           succeeded (setup_calls @ [canvas_wait,
             Select_Option select_loc ''orientation-gradient'', Wait_For_Timeout 500,
             Click edit_rule_button, gradient_dialog_wait,
             Screenshot ''verification/editor_gradient.png'',
             Click ''text=Cancel'', Wait_For_Timeout 500,
             Select_Option select_loc ''orientation'', Wait_For_Timeout 500,
             Click edit_rule_button, orientation_dialog_wait,
             Screenshot ''verification/editor_orientation.png'',
             Close, Stop_Playwright])
       \<and> files_of (verify_editor app) =
           [''verification/editor_gradient.png'', ''verification/editor_orientation.png'']
       \<and> outcome_of (verify_editor app) = Returned"
  using assms
  by (cases app rule: editor_cases) (simp_all add: of_observed, blast+)

theorem editor_run_when_all_elements_appear_witness:
  "files_of (verify_editor all_present) =
     [''verification/editor_gradient.png'', ''verification/editor_orientation.png'']
   \<and> outcome_of (verify_editor all_present) = Returned"
proof -
  have h: "\<forall>a e. (a, Fails e) \<notin> set (log_of (verify_editor all_present))"
    by (simp add: eval_defs log_of_def all_present_def)
  show ?thesis
    using editor_run_when_all_elements_appear[OF h] by simp
qed

text \<open>
  C4. In every run of the editor script, \<^verbatim>\<open>verification/editor_gradient.png\<close> is written only
  after the script has selected \<open>orientation-gradient\<close>, clicked the button whose title is
  "Edit Rule", and the wait for the text "Edit Gradient" (timeout 2000 ms) has succeeded: the
  log of the run then starts with exactly these calls, all of them completed. If that wait
  times out, the screenshot is neither taken nor written.
\<close>

theorem editor_gradient_screenshot_only_after_dialog:
  "(''verification/editor_gradient.png'' \<in> set (files_of (verify_editor app)) \<longrightarrow>
      (\<exists>rest. log_of (verify_editor app) =
         succeeded (setup_calls @ [canvas_wait,
           Select_Option select_loc ''orientation-gradient'', Wait_For_Timeout 500,
           Click edit_rule_button, gradient_dialog_wait,
           Screenshot ''verification/editor_gradient.png'']) @ rest))
   \<and> ((gradient_dialog_wait, Fails e) \<in> set (log_of (verify_editor app)) \<longrightarrow>
        ''verification/editor_gradient.png'' \<notin> set (files_of (verify_editor app))
      \<and> (\<forall>r. (Screenshot ''verification/editor_gradient.png'', r)
              \<notin> set (log_of (verify_editor app))))"
  by (cases app rule: editor_cases) (simp_all add: of_observed call_defs)

theorem editor_gradient_screenshot_only_after_dialog_witness:
  "''verification/editor_gradient.png'' \<in> set (files_of (verify_editor all_present))
   \<and> (\<exists>rest. log_of (verify_editor all_present) =
         succeeded (setup_calls @ [canvas_wait,
           Select_Option select_loc ''orientation-gradient'', Wait_For_Timeout 500,
           Click edit_rule_button, gradient_dialog_wait,
           Screenshot ''verification/editor_gradient.png'']) @ rest)
   \<and> (gradient_dialog_wait, Fails ''Timeout exceeded'')
        \<in> set (log_of (verify_editor (lacking gradient_dialog_wait)))
   \<and> ''verification/editor_gradient.png''
        \<notin> set (files_of (verify_editor (lacking gradient_dialog_wait)))"
proof -
  have h1: "''verification/editor_gradient.png'' \<in> set (files_of (verify_editor all_present))"
    by (simp add: eval_defs files_of_def all_present_def)
  have h2: "(gradient_dialog_wait, Fails ''Timeout exceeded'')
              \<in> set (log_of (verify_editor (lacking gradient_dialog_wait)))"
    by (simp add: eval_defs log_of_def lacking_def gradient_dialog_wait_def)
  show ?thesis
    using h1 h2 editor_gradient_screenshot_only_after_dialog[of all_present]
      editor_gradient_screenshot_only_after_dialog[of "lacking gradient_dialog_wait"
        "''Timeout exceeded''"]
    by blast
qed






section \<open>Both scripts\<close>

text \<open>
  C6. The browser is not closed on every exit path. In either script, whenever a call fails
  (a wait that times out, a selection or a click whose target is missing), the explicit
  \<^verbatim>\<open>browser.close()\<close> is never called; only the context manager stops Playwright. Such
  paths exist in both scripts, both as the early return after a canvas timeout and as an
  exception raised before the final close call.
\<close>

theorem browser_close_skipped_on_failure:
  "((a, Fails e) \<in> set (log_of (verify_coloring_ui app)) \<longrightarrow>
      Close \<notin> set (calls_of (verify_coloring_ui app))
    \<and> Stop_Playwright \<in> set (calls_of (verify_coloring_ui app)))
   \<and> ((a, Fails e) \<in> set (log_of (verify_editor app)) \<longrightarrow>
        Close \<notin> set (calls_of (verify_editor app))
      \<and> Stop_Playwright \<in> set (calls_of (verify_editor app)))
   \<and> (\<exists>app'. outcome_of (verify_coloring_ui app') = Returned
            \<and> Close \<notin> set (calls_of (verify_coloring_ui app')))
   \<and> (\<exists>app' e'. outcome_of (verify_coloring_ui app') = Raised e'
            \<and> Close \<notin> set (calls_of (verify_coloring_ui app')))
   \<and> (\<exists>app'. outcome_of (verify_editor app') = Returned
            \<and> Close \<notin> set (calls_of (verify_editor app')))
   \<and> (\<exists>app' e'. outcome_of (verify_editor app') = Raised e'
            \<and> Close \<notin> set (calls_of (verify_editor app')))"
proof (intro conjI)
  show "(a, Fails e) \<in> set (log_of (verify_coloring_ui app)) \<longrightarrow>
      Close \<notin> set (calls_of (verify_coloring_ui app))
    \<and> Stop_Playwright \<in> set (calls_of (verify_coloring_ui app))"
    by (cases app rule: coloring_cases) (simp_all add: of_observed call_defs)
  show "(a, Fails e) \<in> set (log_of (verify_editor app)) \<longrightarrow>
        Close \<notin> set (calls_of (verify_editor app))
      \<and> Stop_Playwright \<in> set (calls_of (verify_editor app))"
    by (cases app rule: editor_cases) (simp_all add: of_observed call_defs)
  show "\<exists>app'. outcome_of (verify_coloring_ui app') = Returned
            \<and> Close \<notin> set (calls_of (verify_coloring_ui app'))"
    by (rule exI[of _ "lacking canvas_wait"])
       (simp add: eval_defs outcome_of_def calls_of_def lacking_def canvas_wait_def)
  show "\<exists>app' e'. outcome_of (verify_coloring_ui app') = Raised e'
            \<and> Close \<notin> set (calls_of (verify_coloring_ui app'))"
    by (rule exI[of _ "lacking (Select_Option select_loc ''random'')"])
       (simp add: eval_defs outcome_of_def calls_of_def lacking_def)
  show "\<exists>app'. outcome_of (verify_editor app') = Returned
            \<and> Close \<notin> set (calls_of (verify_editor app'))"
    by (rule exI[of _ "lacking canvas_wait"])
       (simp add: eval_defs outcome_of_def calls_of_def lacking_def canvas_wait_def)
  show "\<exists>app' e'. outcome_of (verify_editor app') = Raised e'
            \<and> Close \<notin> set (calls_of (verify_editor app'))"
    by (rule exI[of _ "lacking gradient_dialog_wait"])
       (simp add: eval_defs outcome_of_def calls_of_def lacking_def gradient_dialog_wait_def)
qed

theorem browser_close_skipped_on_failure_witness:
  "(ui_wait, Fails ''Timeout exceeded'') \<in> set (log_of (verify_coloring_ui (lacking ui_wait)))
   \<and> Close \<notin> set (calls_of (verify_coloring_ui (lacking ui_wait)))
   \<and> Stop_Playwright \<in> set (calls_of (verify_coloring_ui (lacking ui_wait)))
   \<and> (Click ''text=Cancel'', Fails ''Timeout exceeded'')
        \<in> set (log_of (verify_editor (lacking (Click ''text=Cancel''))))
   \<and> Close \<notin> set (calls_of (verify_editor (lacking (Click ''text=Cancel''))))
   \<and> Stop_Playwright \<in> set (calls_of (verify_editor (lacking (Click ''text=Cancel''))))"
proof -
  have h1: "(ui_wait, Fails ''Timeout exceeded'')
              \<in> set (log_of (verify_coloring_ui (lacking ui_wait)))"
    by (simp add: eval_defs log_of_def lacking_def ui_wait_def)
  have h2: "(Click ''text=Cancel'', Fails ''Timeout exceeded'')
              \<in> set (log_of (verify_editor (lacking (Click ''text=Cancel''))))"
    by (simp add: eval_defs log_of_def lacking_def edit_rule_button_def)
  show ?thesis
    using h1 h2
      browser_close_skipped_on_failure[of ui_wait "''Timeout exceeded''" "lacking ui_wait"]
      browser_close_skipped_on_failure[of "Click ''text=Cancel''" "''Timeout exceeded''"
        "lacking (Click ''text=Cancel'')"]
    by blast
qed

text \<open>
  C7. Console messages and page errors are printed and nothing else: two runs of a script
  that differ only in the console and page-error events the page delivers make the same
  calls with the same responses, write the same files and end in the same way (returning,
  or raising the same exception). The listeners do print what arrives: with a page that
  logs \<open>tick\<close> and throws \<open>Error: boom\<close>, both lines are in the output of a run.
\<close>

theorem page_events_only_printed:
  "outcome_of (verify_coloring_ui (app\<lparr>emits := ev\<rparr>)) = outcome_of (verify_coloring_ui app)
   \<and> log_of (verify_coloring_ui (app\<lparr>emits := ev\<rparr>)) = log_of (verify_coloring_ui app)
   \<and> files_of (verify_coloring_ui (app\<lparr>emits := ev\<rparr>)) = files_of (verify_coloring_ui app)
   \<and> outcome_of (verify_editor (app\<lparr>emits := ev\<rparr>)) = outcome_of (verify_editor app)
   \<and> log_of (verify_editor (app\<lparr>emits := ev\<rparr>)) = log_of (verify_editor app)
   \<and> files_of (verify_editor (app\<lparr>emits := ev\<rparr>)) = files_of (verify_editor app)
   \<and> ''Console: tick'' \<in> set (stdout (snd (verify_coloring_ui all_present)))
   \<and> ''PageError: Error: boom'' \<in> set (stdout (snd (verify_coloring_ui all_present)))
   \<and> ''Console: tick'' \<in> set (stdout (snd (verify_editor all_present)))
   \<and> ''PageError: Error: boom'' \<in> set (stdout (snd (verify_editor all_present)))"
proof -
  have c: "observed (verify_coloring_ui (app\<lparr>emits := ev\<rparr>)) = observed (verify_coloring_ui app)"
    by (rule coloring_quiet) simp
  have d: "observed (verify_editor (app\<lparr>emits := ev\<rparr>)) = observed (verify_editor app)"
    by (rule editor_quiet) simp
  have p: "''Console: tick'' \<in> set (stdout (snd (verify_coloring_ui all_present)))"
    "''PageError: Error: boom'' \<in> set (stdout (snd (verify_coloring_ui all_present)))"
    "''Console: tick'' \<in> set (stdout (snd (verify_editor all_present)))"
    "''PageError: Error: boom'' \<in> set (stdout (snd (verify_editor all_present)))"
    by (simp_all add: eval_defs all_present_def)
  from c d p show ?thesis
    by (simp add: observed_def outcome_of_def log_of_def files_of_def)
qed

end
